theory Spec2Isabelle
  imports Main
begin

section \<open>Data model\<close>

text \<open>
  The execution client of \<^verbatim>\<open>inv_trader/execution.py\<close> keeps two dictionaries: the
  registered strategies (strategy id to the strategy's event handler) and the order index
  (order id to strategy id). Both ids are Python strings.
\<close>

type_synonym StrategyId = string
type_synonym OrderId = string

text \<open>
  A handler stored in the strategy registry is the bound method \<^verbatim>\<open>strategy._update_events\<close>
  of one strategy object; \<open>sink_ref\<close> is the identity of that object. Two distinct objects
  may print as the same strategy id.
\<close>

type_synonym sink_ref = nat
type_synonym timestamp = int
type_synonym uuid = nat

text \<open>\<^verbatim>\<open>Decimal\<close> prices are only passed through: a coefficient and an exponent.\<close>

type_synonym decimal = "int \<times> int"

text \<open>
  \<^verbatim>\<open>Order\<close> (module \<^verbatim>\<open>inv_trader.model.order\<close>): the two attributes the client reads.
  The field \<open>id'\<close> is the source's \<^verbatim>\<open>order.id\<close>.
\<close>

record order =
  symbol :: string
  id' :: OrderId

text \<open>An argument passed where an \<^verbatim>\<open>Order\<close> is expected: Python does not check it.\<close>

datatype py_order = AnOrder order | NotAnOrder

text \<open>
  A \<^verbatim>\<open>TradeStrategy\<close> object: \<open>str\<close> is what \<^verbatim>\<open>str(strategy)\<close> returns (name and label),
  \<open>update_events\<close> the identity of its handler.
\<close>

record strategy =
  str :: StrategyId
  update_events :: sink_ref

datatype py_strategy = AStrategy strategy | NotAStrategy

text \<open>
  Modelled from the spec: the event classes of \<^verbatim>\<open>inv_trader.model.events\<close> are not among
  the sources. The spec's taxonomy gives the variants and their extra fields; every
  order event carries \<open>order_id\<close> and a symbol, and every event an \<open>event_id\<close> and two
  timestamps. The source passes the constructor arguments by position: symbol, order id,
  the extra fields, a time, a uuid, a time.
\<close>

datatype event_kind =
    Submitted
  | Accepted
  | Working string
  | Rejected string
  | Modified string decimal
  | Cancelled
  | CancelReject string
  | Expired

record order_event =
  ev_symbol :: string
  order_id :: OrderId
  kind :: event_kind
  occurred_timestamp :: timestamp
  event_id :: uuid
  event_timestamp :: timestamp

text \<open>
  An argument passed to the inbound handler: an object that is no \<^verbatim>\<open>Event\<close>, an
  \<^verbatim>\<open>Event\<close> that is no \<^verbatim>\<open>OrderEvent\<close> (its id and timestamp), or an \<^verbatim>\<open>OrderEvent\<close>.
\<close>

datatype py_event =
    NotAnEvent
  | OtherEvent uuid timestamp
  | AnOrderEvent order_event

fun isinstance_Event :: "py_event \<Rightarrow> bool" where
  "isinstance_Event NotAnEvent = False"
| "isinstance_Event (OtherEvent u t) = True"
| "isinstance_Event (AnOrderEvent e) = True"

text \<open>The exceptions the client raises or lets through.\<close>

datatype error =
    TypeError
  | ValueError string
  | KeyError StrategyId
  | AttributeError

text \<open>
  The state: the client's two dictionaries, and what its effects touch outside of it:
  the events each handler has been called with (in call order), the strategies that were
  handed the client, the lines printed by \<^verbatim>\<open>_log\<close>, and how many times the clock and the
  uuid generator have been read.
\<close>

record state =
  registered_strategies :: "StrategyId \<rightharpoonup> sink_ref"
  order_index :: "OrderId \<rightharpoonup> StrategyId"
  inbox :: "sink_ref \<Rightarrow> order_event list"
  attached :: "sink_ref list"
  printed :: "string list"
  clock_reads :: nat
  uuid_draws :: nat

text \<open>
  What \<^verbatim>\<open>datetime.datetime.utcnow()\<close> and \<^verbatim>\<open>uuid.uuid4()\<close> return at their n-th call in one
  run of the program.
\<close>

record env =
  utcnow_src :: "nat \<Rightarrow> timestamp"
  uuid4_src :: "nat \<Rightarrow> uuid"

text \<open>
  A call either returns or raises; an exception does not undo the mutations made before
  it, so both carry the state.
\<close>

datatype outcome = Returned state | Raised error state

fun state_of :: "outcome \<Rightarrow> state" where
  "state_of (Returned s) = s"
| "state_of (Raised e s) = s"

fun and_then :: "outcome \<Rightarrow> (state \<Rightarrow> outcome) \<Rightarrow> outcome" where
  "and_then (Returned s) f = f s"
| "and_then (Raised e s) f = Raised e s"

section \<open>ExecutionClient\<close>

definition init :: state where
  "init = \<lparr>registered_strategies = Map.empty, order_index = Map.empty,
           inbox = (\<lambda>r. []), attached = [], printed = [],
           clock_reads = 0, uuid_draws = 0\<rparr>"

text \<open>\<^verbatim>\<open>_log\<close>: prints the message.\<close>

definition log :: "string \<Rightarrow> state \<Rightarrow> state" where
  "log message s = s\<lparr>printed := printed s @ [message]\<rparr>"

text \<open>
  Modelled from the spec: the class \<^verbatim>\<open>TradeStrategy\<close> of \<^verbatim>\<open>inv_trader.strategy\<close> is not
  among the sources. Its handler is the strategy's event sink: called with an event, it
  receives it and returns; \<^verbatim>\<open>_register_execution_client\<close> hands the client to the
  strategy.
\<close>

definition call_sink :: "sink_ref \<Rightarrow> order_event \<Rightarrow> state \<Rightarrow> state" where
  "call_sink r event s = s\<lparr>inbox := (inbox s)(r := inbox s r @ [event])\<rparr>"

definition register_execution_client :: "sink_ref \<Rightarrow> state \<Rightarrow> state" where
  "register_execution_client r s = s\<lparr>attached := attached s @ [r]\<rparr>"

definition register_strategy :: "py_strategy \<Rightarrow> state \<Rightarrow> outcome" where
  "register_strategy arg s =
     (case arg of
        NotAStrategy \<Rightarrow> Raised TypeError s
      | AStrategy strategy \<Rightarrow>
          (let strategy_id = str strategy in
           if strategy_id \<in> dom (registered_strategies s)
           then Raised (ValueError ''The strategy does not have a unique name and label.'') s
           else Returned (register_execution_client (update_events strategy)
                  (s\<lparr>registered_strategies :=
                       (registered_strategies s)(strategy_id \<mapsto> update_events strategy)\<rparr>))))"

definition register_order :: "py_order \<Rightarrow> StrategyId \<Rightarrow> state \<Rightarrow> outcome" where
  "register_order arg strategy_id s =
     (case arg of
        NotAnOrder \<Rightarrow> Raised TypeError s
      | AnOrder order \<Rightarrow>
          if id' order \<in> dom (order_index s)
          then Raised (ValueError ''The order does not have a unique id.'') s
          else Returned (s\<lparr>order_index := (order_index s)(id' order \<mapsto> strategy_id)\<rparr>))"

text \<open>
  \<^verbatim>\<open>_on_event\<close>. The first statement builds a \<^verbatim>\<open>TypeError\<close> for an argument that is no
  \<^verbatim>\<open>Event\<close> and drops it: there is no \<^verbatim>\<open>raise\<close>. The subscript
  \<^verbatim>\<open>self._registered_strategies[strategy_id]\<close> raises \<^verbatim>\<open>KeyError\<close> on a missing key.
\<close>

definition on_event :: "py_event \<Rightarrow> state \<Rightarrow> outcome" where
  "on_event event s =
     (let unraised = (if \<not> isinstance_Event event then Some TypeError else None) in
      case event of
        AnOrderEvent e \<Rightarrow>
          (case order_index s (order_id e) of
             Some strategy_id \<Rightarrow>
               (case registered_strategies s strategy_id of
                  None \<Rightarrow> Raised (KeyError strategy_id) s
                | Some sink \<Rightarrow> Returned (call_sink sink e s))
           | None \<Rightarrow>
               Returned (log (''Execution: Warning given event order id not contained in index ''
                              @ order_id e) s))
      | OtherEvent u t \<Rightarrow> Returned s
      | NotAnEvent \<Rightarrow> Returned s)"

section \<open>MockExecClient\<close>

definition utcnow :: "env \<Rightarrow> state \<Rightarrow> timestamp \<times> state" where
  "utcnow env s = (utcnow_src env (clock_reads s), s\<lparr>clock_reads := Suc (clock_reads s)\<rparr>)"

definition uuid4 :: "env \<Rightarrow> state \<Rightarrow> uuid \<times> state" where
  "uuid4 env s = (uuid4_src env (uuid_draws s), s\<lparr>uuid_draws := Suc (uuid_draws s)\<rparr>)"

text \<open>
  The last three arguments of every event constructor call, evaluated left to right:
  \<^verbatim>\<open>datetime.datetime.utcnow(), uuid.uuid4(), datetime.datetime.utcnow()\<close>.
\<close>

definition stamps :: "env \<Rightarrow> state \<Rightarrow> (timestamp \<times> uuid \<times> timestamp) \<times> state" where
  "stamps env s =
     (let (t1, s1) = utcnow env s;
          (u, s2) = uuid4 env s1;
          (t2, s3) = utcnow env s2
      in ((t1, u, t2), s3))"

definition new_event :: "order \<Rightarrow> event_kind \<Rightarrow> timestamp \<times> uuid \<times> timestamp \<Rightarrow> order_event" where
  "new_event order k st =
     (case st of (t1, u, t2) \<Rightarrow>
        \<lparr>ev_symbol = symbol order, order_id = id' order, kind = k,
         occurred_timestamp = t1, event_id = u, event_timestamp = t2\<rparr>)"

definition connect :: "state \<Rightarrow> outcome" where
  "connect s = Returned (log ''MockExecClient connected.'' s)"

definition disconnect :: "state \<Rightarrow> outcome" where
  "disconnect s = Returned (log ''MockExecClient disconnected.'' s)"

text \<open>
  \<^verbatim>\<open>submit_order\<close>: registers, builds the three events, then hands them to \<^verbatim>\<open>_on_event\<close>
  one after the other. Reading \<^verbatim>\<open>order.symbol\<close> of an object that is no order raises
  \<^verbatim>\<open>AttributeError\<close> (not reached here: \<^verbatim>\<open>_register_order\<close> has raised before).
\<close>

definition submit_order :: "env \<Rightarrow> py_order \<Rightarrow> StrategyId \<Rightarrow> state \<Rightarrow> outcome" where
  "submit_order env arg strategy_id s =
     and_then (register_order arg strategy_id s) (\<lambda>s0.
       case arg of
         NotAnOrder \<Rightarrow> Raised AttributeError s0
       | AnOrder order \<Rightarrow>
           (let (st1, s1) = stamps env s0;
                order_submitted = new_event order Submitted st1;
                (st2, s2) = stamps env s1;
                order_accepted = new_event order Accepted st2;
                (st3, s3) = stamps env s2;
                order_working = new_event order (Working (''B'' @ id' order)) st3
            in and_then (on_event (AnOrderEvent order_submitted) s3) (\<lambda>s4.
               and_then (on_event (AnOrderEvent order_accepted) s4) (\<lambda>s5.
               on_event (AnOrderEvent order_working) s5))))"

definition cancel_order :: "env \<Rightarrow> py_order \<Rightarrow> state \<Rightarrow> outcome" where
  "cancel_order env arg s =
     (case arg of
        NotAnOrder \<Rightarrow> Raised AttributeError s
      | AnOrder order \<Rightarrow>
          (let (st, s1) = stamps env s;
               order_cancelled = new_event order Cancelled st
           in on_event (AnOrderEvent order_cancelled) s1))"

definition modify_order :: "env \<Rightarrow> py_order \<Rightarrow> decimal \<Rightarrow> state \<Rightarrow> outcome" where
  "modify_order env arg new_price s =
     (case arg of
        NotAnOrder \<Rightarrow> Raised AttributeError s
      | AnOrder order \<Rightarrow>
          (let (st, s1) = stamps env s;
               order_modified = new_event order (Modified (''B'' @ id' order) new_price) st
           in on_event (AnOrderEvent order_modified) s1))"

section \<open>LiveExecClient\<close>

definition live_connect :: "state \<Rightarrow> outcome" where
  "live_connect s = Returned (log ''LiveExecClient connected.'' s)"

definition live_disconnect :: "state \<Rightarrow> outcome" where
  "live_disconnect s = Returned (log ''Execution client disconnected.'' s)"

definition live_submit_order :: "py_order \<Rightarrow> StrategyId \<Rightarrow> state \<Rightarrow> outcome" where
  "live_submit_order arg strategy_id s = register_order arg strategy_id s"

definition live_cancel_order :: "py_order \<Rightarrow> state \<Rightarrow> outcome" where
  "live_cancel_order arg s = Returned s"

definition live_modify_order :: "py_order \<Rightarrow> decimal \<Rightarrow> state \<Rightarrow> outcome" where
  "live_modify_order arg new_price s = Returned s"

section \<open>Sequences of calls\<close>

text \<open>
  A caller's calls on one client, one after the other. A call that raises leaves the
  state as the exception found it, and the caller goes on from there.
\<close>

datatype adapter = Mock | Live

datatype call =
    RegisterStrategy py_strategy
  | Connect
  | Disconnect
  | SubmitOrder py_order StrategyId
  | CancelOrder py_order
  | ModifyOrder py_order decimal
  | OnEvent py_event

fun perform :: "env \<Rightarrow> adapter \<Rightarrow> call \<Rightarrow> state \<Rightarrow> outcome" where
  "perform env a (RegisterStrategy st) s = register_strategy st s"
| "perform env a (OnEvent ev) s = on_event ev s"
| "perform env Mock Connect s = connect s"
| "perform env Mock Disconnect s = disconnect s"
| "perform env Mock (SubmitOrder ord sid) s = submit_order env ord sid s"
| "perform env Mock (CancelOrder ord) s = cancel_order env ord s"
| "perform env Mock (ModifyOrder ord p) s = modify_order env ord p s"
| "perform env Live Connect s = live_connect s"
| "perform env Live Disconnect s = live_disconnect s"
| "perform env Live (SubmitOrder ord sid) s = live_submit_order ord sid s"
| "perform env Live (CancelOrder ord) s = live_cancel_order ord s"
| "perform env Live (ModifyOrder ord p) s = live_modify_order ord p s"

fun run :: "env \<Rightarrow> adapter \<Rightarrow> call list \<Rightarrow> state \<Rightarrow> state" where
  "run env a [] s = s"
| "run env a (c # cs) s = run env a cs (state_of (perform env a c s))"

section \<open>Observations and a concrete scenario\<close>

text \<open>
  What an order event says apart from its id and its two timestamps: the symbol, the order
  id and the variant with its extra fields.
\<close>

definition content :: "order_event \<Rightarrow> string \<times> OrderId \<times> event_kind" where
  "content e = (ev_symbol e, order_id e, kind e)"

fun raised :: "outcome \<Rightarrow> error option" where
  "raised (Returned s) = None"
| "raised (Raised e s) = Some e"

text \<open>
  Two states are similar when they agree on everything but the ids and timestamps of the
  delivered events and the number of clock and uuid reads.
\<close>

definition similar :: "state \<Rightarrow> state \<Rightarrow> bool" where
  "similar s t \<longleftrightarrow>
     registered_strategies s = registered_strategies t
     \<and> order_index s = order_index t
     \<and> (\<forall>r. map content (inbox s r) = map content (inbox t r))
     \<and> attached s = attached t
     \<and> printed s = printed t"

definition similar_outcome :: "outcome \<Rightarrow> outcome \<Rightarrow> bool" where
  "similar_outcome x y \<longleftrightarrow> raised x = raised y \<and> similar (state_of x) (state_of y)"

text \<open>
  The scenario of the specification: strategy \<open>S-1\<close> registers, order \<open>O-1\<close> on symbol
  \<open>X\<close> is submitted under it. In the environment \<open>env_from k\<close> the n-th clock reading is
  \<open>k + n\<close> and the n-th uuid is \<open>k + n\<close>.
\<close>

definition env_from :: "nat \<Rightarrow> env" where
  "env_from k = \<lparr>utcnow_src = (\<lambda>n. int (k + n)), uuid4_src = (\<lambda>n. k + n)\<rparr>"

definition S1 :: strategy where
  "S1 = \<lparr>str = ''S-1'', update_events = 1\<rparr>"

definition O1 :: order where
  "O1 = \<lparr>symbol = ''X'', id' = ''O-1''\<rparr>"

definition registered :: state where
  "registered = state_of (register_strategy (AStrategy S1) init)"

definition submitted :: state where
  "submitted = state_of (submit_order (env_from 0) (AnOrder O1) ''S-1'' registered)"

lemmas client_defs =
  init_def log_def call_sink_def register_execution_client_def register_strategy_def
  register_order_def on_event_def utcnow_def uuid4_def stamps_def new_event_def
  connect_def disconnect_def submit_order_def cancel_order_def modify_order_def
  live_connect_def live_disconnect_def live_submit_order_def live_cancel_order_def
  live_modify_order_def

lemmas scenario_defs = env_from_def S1_def O1_def registered_def submitted_def

section \<open>Basic facts\<close>

lemma stamps_eq:
  "stamps env s =
     ((utcnow_src env (clock_reads s), uuid4_src env (uuid_draws s),
       utcnow_src env (clock_reads s + 1)),
      s\<lparr>clock_reads := clock_reads s + 2, uuid_draws := uuid_draws s + 1\<rparr>)"
  by (simp add: stamps_def utcnow_def uuid4_def)

lemma on_event_delivered:
  assumes "order_index s (order_id e) = Some sid"
      and "registered_strategies s sid = Some sink"
  shows "on_event (AnOrderEvent e) s =
           Returned (s\<lparr>inbox := (inbox s)(sink := inbox s sink @ [e])\<rparr>)"
  using assms by (simp add: on_event_def call_sink_def)

lemma on_event_unknown_strategy:
  assumes "order_index s (order_id e) = Some sid"
      and "registered_strategies s sid = None"
  shows "on_event (AnOrderEvent e) s = Raised (KeyError sid) s"
  using assms by (simp add: on_event_def)

lemma on_event_registries:
  "order_index (state_of (on_event ev s)) = order_index s"
  "registered_strategies (state_of (on_event ev s)) = registered_strategies s"
  by (auto simp: on_event_def call_sink_def log_def split: py_event.splits option.splits)

lemma and_then_state_of:
  assumes "\<And>t. P t \<Longrightarrow> P (state_of (f t))" and "P (state_of x)"
  shows "P (state_of (and_then x f))"
  using assms by (cases x) auto

subsection \<open>What \<^verbatim>\<open>submit_order\<close> and \<^verbatim>\<open>modify_order\<close> of the mock client compute\<close>

lemma submit_order_duplicate:
  "id' order \<in> dom (order_index s) \<Longrightarrow>
   submit_order env (AnOrder order) sid s =
     Raised (ValueError ''The order does not have a unique id.'') s"
  by (simp add: submit_order_def register_order_def)

lemma submit_order_no_sink:
  assumes "id' order \<notin> dom (order_index s)" and "registered_strategies s sid = None"
  shows "submit_order env (AnOrder order) sid s =
           Raised (KeyError sid)
             (s\<lparr>order_index := (order_index s)(id' order \<mapsto> sid),
                clock_reads := clock_reads s + 6, uuid_draws := uuid_draws s + 3\<rparr>)"
  using assms
  by (simp add: submit_order_def register_order_def stamps_eq new_event_def
        on_event_unknown_strategy)

lemma submit_order_sink:
  assumes "id' order \<notin> dom (order_index s)" and "registered_strategies s sid = Some sink"
  shows "submit_order env (AnOrder order) sid s =
           Returned
             (s\<lparr>order_index := (order_index s)(id' order \<mapsto> sid),
                inbox := (inbox s)(sink := inbox s sink @
                  [new_event order Submitted
                     (utcnow_src env (clock_reads s), uuid4_src env (uuid_draws s),
                      utcnow_src env (clock_reads s + 1)),
                   new_event order Accepted
                     (utcnow_src env (clock_reads s + 2), uuid4_src env (uuid_draws s + 1),
                      utcnow_src env (clock_reads s + 3)),
                   new_event order (Working (''B'' @ id' order))
                     (utcnow_src env (clock_reads s + 4), uuid4_src env (uuid_draws s + 2),
                      utcnow_src env (clock_reads s + 5))]),
                clock_reads := clock_reads s + 6, uuid_draws := uuid_draws s + 3\<rparr>)"
  using assms
  by (simp add: submit_order_def register_order_def stamps_eq new_event_def
        on_event_delivered eval_nat_numeral)

lemma modify_order_sink:
  assumes "order_index s (id' order) = Some sid" and "registered_strategies s sid = Some sink"
  shows "modify_order env (AnOrder order) p s =
           Returned
             (s\<lparr>inbox := (inbox s)(sink := inbox s sink @
                  [new_event order (Modified (''B'' @ id' order) p)
                     (utcnow_src env (clock_reads s), uuid4_src env (uuid_draws s),
                      utcnow_src env (clock_reads s + 1))]),
                clock_reads := clock_reads s + 2, uuid_draws := uuid_draws s + 1\<rparr>)"
  using assms
  by (simp add: modify_order_def stamps_eq new_event_def on_event_delivered)

subsection \<open>No call removes or overwrites a registry entry\<close>

lemma register_order_keeps:
  "order_index s oid = Some sid \<Longrightarrow>
   order_index (state_of (register_order arg sid' s)) oid = Some sid"
  by (auto simp: register_order_def split: py_order.splits)

lemma register_order_strategies:
  "registered_strategies (state_of (register_order arg sid' s)) = registered_strategies s"
  by (auto simp: register_order_def split: py_order.splits)

lemma register_strategy_index:
  "order_index (state_of (register_strategy arg s)) = order_index s"
  by (auto simp: register_strategy_def register_execution_client_def Let_def
           split: py_strategy.splits)

lemma register_strategy_keeps:
  "registered_strategies s sid = Some r \<Longrightarrow>
   registered_strategies (state_of (register_strategy arg s)) sid = Some r"
  by (auto simp: register_strategy_def register_execution_client_def Let_def
           split: py_strategy.splits)

lemma submit_order_index_after:
  "order_index (state_of (submit_order env arg sid s)) =
   order_index (state_of (register_order arg sid s))"
  by (cases "register_order arg sid s"; cases arg)
     (auto simp: submit_order_def stamps_eq Let_def on_event_registries
           intro!: and_then_state_of[where P="\<lambda>t. order_index t = m" for m])

lemma submit_order_strategies:
  "registered_strategies (state_of (submit_order env arg sid s)) = registered_strategies s"
proof (cases "register_order arg sid s")
  case (Returned s0)
  then have "registered_strategies s0 = registered_strategies s"
    using register_order_strategies[of arg sid s] by simp
  with Returned show ?thesis
    by (cases arg)
       (auto simp: submit_order_def stamps_eq Let_def on_event_registries
             intro!: and_then_state_of[where P="\<lambda>t. registered_strategies t = m" for m])
next
  case (Raised e s0)
  then show ?thesis
    using register_order_strategies[of arg sid s] by (simp add: submit_order_def)
qed

lemma cancel_order_registries:
  "order_index (state_of (cancel_order env arg s)) = order_index s"
  "registered_strategies (state_of (cancel_order env arg s)) = registered_strategies s"
  by (cases arg; simp add: cancel_order_def stamps_eq Let_def on_event_registries)+

lemma modify_order_registries:
  "order_index (state_of (modify_order env arg p s)) = order_index s"
  "registered_strategies (state_of (modify_order env arg p s)) = registered_strategies s"
  by (cases arg; simp add: modify_order_def stamps_eq Let_def on_event_registries)+

lemma perform_keeps_order:
  assumes "order_index s oid = Some sid"
  shows "order_index (state_of (perform env a c s)) oid = Some sid"
proof (cases c)
  case (SubmitOrder ord sid')
  then show ?thesis
    using assms register_order_keeps[of s oid sid ord sid']
    by (cases a) (simp_all add: submit_order_index_after live_submit_order_def)
qed (cases a; simp add: assms register_strategy_index on_event_registries
       cancel_order_registries modify_order_registries connect_def disconnect_def
       live_connect_def live_disconnect_def live_cancel_order_def live_modify_order_def
       log_def)+

lemma perform_keeps_strategy:
  assumes "registered_strategies s sid = Some r"
  shows "registered_strategies (state_of (perform env a c s)) sid = Some r"
proof (cases c)
  case (RegisterStrategy st)
  then show ?thesis using assms by (simp add: register_strategy_keeps)
qed (cases a; simp add: assms register_order_strategies submit_order_strategies
       on_event_registries cancel_order_registries modify_order_registries connect_def
       disconnect_def live_connect_def live_disconnect_def live_submit_order_def
       live_cancel_order_def live_modify_order_def log_def)+

lemma run_keeps_order:
  "order_index s oid = Some sid \<Longrightarrow> order_index (run env a cs s) oid = Some sid"
  by (induction cs arbitrary: s) (simp_all add: perform_keeps_order)

lemma run_keeps_strategy:
  "registered_strategies s sid = Some r \<Longrightarrow>
   registered_strategies (run env a cs s) sid = Some r"
  by (induction cs arbitrary: s) (simp_all add: perform_keeps_strategy)

section \<open>Registration\<close>

text \<open>
  Claim C4. A second registration of an order with the id of an order registered before
  (whatever calls were made in between) raises \<^verbatim>\<open>ValueError\<close> to the caller and leaves the
  state as it was: the order id is still associated with the first strategy id.
\<close>

theorem duplicate_order_rejected:
  assumes "register_order (AnOrder o1) sid1 s = Returned s1"
      and "id' o2 = id' o1"
  shows "register_order (AnOrder o2) sid2 (run env a cs s1)
           = Raised (ValueError ''The order does not have a unique id.'') (run env a cs s1)
         \<and> order_index (run env a cs s1) (id' o1) = Some sid1"
proof -
  from assms(1) have "order_index s1 (id' o1) = Some sid1"
    by (auto simp: register_order_def split: if_splits)
  then have "order_index (run env a cs s1) (id' o1) = Some sid1"
    by (rule run_keeps_order)
  with assms(2) show ?thesis
    by (simp add: register_order_def domI)
qed

theorem duplicate_order_rejected_witness:
  "register_order (AnOrder O1) ''S-1'' registered
     = Returned (registered\<lparr>order_index := [''O-1'' \<mapsto> ''S-1'']\<rparr>)
   \<and> id' \<lparr>symbol = ''Y'', id' = ''O-1''\<rparr> = id' O1
   \<and> raised (register_order (AnOrder \<lparr>symbol = ''Y'', id' = ''O-1''\<rparr>) ''S-2''
        (run (env_from 0) Mock [CancelOrder (AnOrder O1)]
           (registered\<lparr>order_index := [''O-1'' \<mapsto> ''S-1'']\<rparr>)))
       = Some (ValueError ''The order does not have a unique id.'')
   \<and> order_index (run (env_from 0) Mock [CancelOrder (AnOrder O1)]
        (registered\<lparr>order_index := [''O-1'' \<mapsto> ''S-1'']\<rparr>)) ''O-1'' = Some ''S-1''"
proof -
  have h: "register_order (AnOrder O1) ''S-1'' registered
             = Returned (registered\<lparr>order_index := [''O-1'' \<mapsto> ''S-1'']\<rparr>)"
    by (simp add: client_defs scenario_defs)
  have i: "id' \<lparr>symbol = ''Y'', id' = ''O-1''\<rparr> = id' O1"
    by (simp add: O1_def)
  show ?thesis
    using duplicate_order_rejected[OF h i, of "''S-2''" "env_from 0" Mock
            "[CancelOrder (AnOrder O1)]"] h i
    by (simp add: O1_def)
qed

text \<open>
  Claim C5. A second registration of a strategy that prints as the strategy id of one
  registered before (whatever calls were made in between) raises \<^verbatim>\<open>ValueError\<close> to the
  caller and leaves the state as it was: the strategy id still maps to the handler of the
  first strategy.
\<close>

theorem duplicate_strategy_rejected:
  assumes "register_strategy (AStrategy st1) s = Returned s1"
      and "str st2 = str st1"
  shows "register_strategy (AStrategy st2) (run env a cs s1)
           = Raised (ValueError ''The strategy does not have a unique name and label.'')
               (run env a cs s1)
         \<and> registered_strategies (run env a cs s1) (str st1) = Some (update_events st1)"
proof -
  from assms(1) have "registered_strategies s1 (str st1) = Some (update_events st1)"
    by (auto simp: register_strategy_def register_execution_client_def Let_def
             split: if_splits)
  then have "registered_strategies (run env a cs s1) (str st1) = Some (update_events st1)"
    by (rule run_keeps_strategy)
  with assms(2) show ?thesis
    by (simp add: register_strategy_def domI)
qed

theorem duplicate_strategy_rejected_witness:
  "register_strategy (AStrategy S1) init = Returned registered
   \<and> str \<lparr>str = ''S-1'', update_events = 2\<rparr> = str S1
   \<and> raised (register_strategy (AStrategy \<lparr>str = ''S-1'', update_events = 2\<rparr>)
        (run (env_from 0) Mock [SubmitOrder (AnOrder O1) ''S-1''] registered))
       = Some (ValueError ''The strategy does not have a unique name and label.'')
   \<and> registered_strategies (run (env_from 0) Mock [SubmitOrder (AnOrder O1) ''S-1''] registered)
        ''S-1'' = Some 1"
proof -
  have h: "register_strategy (AStrategy S1) init = Returned registered"
    by (simp add: client_defs scenario_defs)
  have i: "str \<lparr>str = ''S-1'', update_events = 2\<rparr> = str S1"
    by (simp add: S1_def)
  show ?thesis
    using duplicate_strategy_rejected[OF h i, of "env_from 0" Mock
            "[SubmitOrder (AnOrder O1) ''S-1'']"] h i
    by (simp add: S1_def)
qed

text \<open>
  Claim C8. Once an order id is in the order index, every call on the client (of either
  adapter, returning or raising) and so every sequence of calls leaves it there with the
  same strategy id.
\<close>

theorem order_index_only_grows:
  assumes "order_index s oid = Some sid"
  shows "order_index (state_of (perform env a c s)) oid = Some sid
         \<and> order_index (run env a cs s) oid = Some sid"
  using assms by (simp add: perform_keeps_order run_keeps_order)

theorem order_index_only_grows_witness:
  "order_index submitted ''O-1'' = Some ''S-1''
   \<and> order_index (state_of (perform (env_from 6) Mock (SubmitOrder (AnOrder O1) ''S-2'') submitted))
       ''O-1'' = Some ''S-1''
   \<and> order_index (run (env_from 6) Mock
        [RegisterStrategy (AStrategy \<lparr>str = ''S-2'', update_events = 2\<rparr>),
         SubmitOrder (AnOrder O1) ''S-2'',
         CancelOrder (AnOrder O1),
         ModifyOrder (AnOrder O1) (125, -2),
         OnEvent NotAnEvent] submitted) ''O-1'' = Some ''S-1''"
proof -
  have h: "order_index submitted ''O-1'' = Some ''S-1''"
    by (simp add: client_defs scenario_defs)
  show ?thesis
    using order_index_only_grows[OF h, of "env_from 6" Mock
            "SubmitOrder (AnOrder O1) ''S-2''"
            "[RegisterStrategy (AStrategy \<lparr>str = ''S-2'', update_events = 2\<rparr>),
              SubmitOrder (AnOrder O1) ''S-2'',
              CancelOrder (AnOrder O1),
              ModifyOrder (AnOrder O1) (125, -2),
              OnEvent NotAnEvent]"] h
    by blast
qed

section \<open>The inbound handler\<close>

text \<open>
  Claim C6. An order event whose order id is not in the order index is dropped: the
  handler returns without raising, calls no strategy handler, prints the warning, and
  leaves both dictionaries as they were (the only change of the state is the printed
  line).
\<close>

theorem unknown_order_event_dropped:
  assumes "order_id e \<notin> dom (order_index s)"
  shows "on_event (AnOrderEvent e) s =
           Returned (s\<lparr>printed := printed s @
             [''Execution: Warning given event order id not contained in index '' @ order_id e]\<rparr>)"
  using assms by (auto simp: on_event_def log_def split: option.splits)

theorem unknown_order_event_dropped_witness:
  "''O-999'' \<notin> dom (order_index submitted)
   \<and> on_event (AnOrderEvent \<lparr>ev_symbol = ''X'', order_id = ''O-999'', kind = Working ''BO-999'',
        occurred_timestamp = 7, event_id = 8, event_timestamp = 9\<rparr>) submitted
     = Returned (submitted\<lparr>printed :=
         [''Execution: Warning given event order id not contained in index O-999'']\<rparr>)"
proof -
  have h: "order_id \<lparr>ev_symbol = ''X'', order_id = ''O-999'', kind = Working ''BO-999'',
        occurred_timestamp = 7, event_id = 8, event_timestamp = 9\<rparr> \<notin> dom (order_index submitted)"
    by (simp add: client_defs scenario_defs)
  have p: "printed submitted = []"
    by (simp add: client_defs scenario_defs)
  show ?thesis
    using unknown_order_event_dropped[OF h] h by (simp add: p)
qed

text \<open>
  Claim C9. Called with an argument that is no event, or with an event that is no order
  event, the handler returns normally and leaves the whole state as it was (nothing
  delivered, nothing printed, both dictionaries unchanged); and for no argument at all
  does it raise \<^verbatim>\<open>TypeError\<close>.
\<close>

theorem on_event_never_type_error:
  "on_event NotAnEvent s = Returned s
   \<and> on_event (OtherEvent u t) s = Returned s
   \<and> (\<forall>ev s'. on_event ev s \<noteq> Raised TypeError s')"
  by (auto simp: on_event_def split: py_event.splits option.splits)

theorem on_event_never_type_error_witness:
  "on_event NotAnEvent submitted = Returned submitted
   \<and> on_event (OtherEvent 7 8) submitted = Returned submitted
   \<and> raised (on_event NotAnEvent submitted) \<noteq> Some TypeError"
  using on_event_never_type_error[of submitted 7 8] by simp

section \<open>The mock client\<close>

text \<open>
  Claim C1. When the strategy id is registered and the order's id is not yet in the order
  index, \<^verbatim>\<open>submit_order\<close> of the mock client returns, and by then the handler of that
  strategy has been called with exactly three more events, in this order: Submitted,
  Accepted, and Working with the broker order id \<open>B\<close> followed by the order's id, all three
  for this order; no other handler has been called; the order is in the index under the
  strategy id.
\<close>

theorem submit_order_delivers:
  assumes "registered_strategies s strategy_id = Some sink"
      and "id' order \<notin> dom (order_index s)"
  shows "\<exists>s'. submit_order env (AnOrder order) strategy_id s = Returned s'
           \<and> inbox s' sink = inbox s sink @
               [\<lparr>ev_symbol = symbol order, order_id = id' order, kind = Submitted,
                 occurred_timestamp = utcnow_src env (clock_reads s),
                 event_id = uuid4_src env (uuid_draws s),
                 event_timestamp = utcnow_src env (clock_reads s + 1)\<rparr>,
                \<lparr>ev_symbol = symbol order, order_id = id' order, kind = Accepted,
                 occurred_timestamp = utcnow_src env (clock_reads s + 2),
                 event_id = uuid4_src env (uuid_draws s + 1),
                 event_timestamp = utcnow_src env (clock_reads s + 3)\<rparr>,
                \<lparr>ev_symbol = symbol order, order_id = id' order,
                 kind = Working (''B'' @ id' order),
                 occurred_timestamp = utcnow_src env (clock_reads s + 4),
                 event_id = uuid4_src env (uuid_draws s + 2),
                 event_timestamp = utcnow_src env (clock_reads s + 5)\<rparr>]
           \<and> (\<forall>r. r \<noteq> sink \<longrightarrow> inbox s' r = inbox s r)
           \<and> order_index s' = (order_index s)(id' order \<mapsto> strategy_id)
           \<and> registered_strategies s' = registered_strategies s"
  by (simp add: submit_order_sink[OF assms(2) assms(1)] new_event_def)

theorem submit_order_delivers_witness:
  "registered_strategies registered ''S-1'' = Some 1
   \<and> id' O1 \<notin> dom (order_index registered)
   \<and> (\<exists>s'. submit_order (env_from 0) (AnOrder O1) ''S-1'' registered = Returned s'
         \<and> inbox s' 1 =
             [\<lparr>ev_symbol = ''X'', order_id = ''O-1'', kind = Submitted,
               occurred_timestamp = 0, event_id = 0, event_timestamp = 1\<rparr>,
              \<lparr>ev_symbol = ''X'', order_id = ''O-1'', kind = Accepted,
               occurred_timestamp = 2, event_id = 1, event_timestamp = 3\<rparr>,
              \<lparr>ev_symbol = ''X'', order_id = ''O-1'', kind = Working ''BO-1'',
               occurred_timestamp = 4, event_id = 2, event_timestamp = 5\<rparr>]
         \<and> inbox s' 2 = []
         \<and> order_index s' = [''O-1'' \<mapsto> ''S-1''])"
proof -
  have h: "registered_strategies registered ''S-1'' = Some 1"
    by (simp add: client_defs scenario_defs)
  have i: "id' O1 \<notin> dom (order_index registered)"
    by (simp add: client_defs scenario_defs)
  have e: "inbox registered = (\<lambda>r. [])" "order_index registered = Map.empty"
    "clock_reads registered = 0" "uuid_draws registered = 0"
    by (simp_all add: client_defs scenario_defs)
  show ?thesis
    using submit_order_delivers[OF h i, of "env_from 0"] h i
    by (auto simp: e O1_def env_from_def)
qed

text \<open>
  Claim C10. \<^verbatim>\<open>submit_order\<close> of the mock client does not check that the strategy id is
  registered: with an order whose id is new and a strategy id that is not in the strategy
  registry it first puts the order into the index, builds the three events, and then
  raises \<^verbatim>\<open>KeyError\<close> from the dispatch of the first one. The order stays registered, and
  no handler has been called.
\<close>

theorem submit_order_unregistered_strategy:
  assumes "id' order \<notin> dom (order_index s)"
      and "strategy_id \<notin> dom (registered_strategies s)"
  shows "\<exists>s'. submit_order env (AnOrder order) strategy_id s = Raised (KeyError strategy_id) s'
           \<and> order_index s' = (order_index s)(id' order \<mapsto> strategy_id)
           \<and> order_index s' (id' order) = Some strategy_id
           \<and> registered_strategies s' = registered_strategies s
           \<and> inbox s' = inbox s
           \<and> clock_reads s' = clock_reads s + 6
           \<and> uuid_draws s' = uuid_draws s + 3"
proof -
  from assms(2) have "registered_strategies s strategy_id = None"
    by (simp add: domIff)
  from submit_order_no_sink[OF assms(1) this] show ?thesis
    by simp
qed

theorem submit_order_unregistered_strategy_witness:
  "id' O1 \<notin> dom (order_index registered)
   \<and> ''S-9'' \<notin> dom (registered_strategies registered)
   \<and> (\<exists>s'. submit_order (env_from 0) (AnOrder O1) ''S-9'' registered = Raised (KeyError ''S-9'') s'
         \<and> order_index s' ''O-1'' = Some ''S-9''
         \<and> inbox s' 1 = [])"
proof -
  have h: "id' O1 \<notin> dom (order_index registered)"
    by (simp add: client_defs scenario_defs)
  have i: "''S-9'' \<notin> dom (registered_strategies registered)"
    by (simp add: client_defs scenario_defs)
  have e: "inbox registered = (\<lambda>r. [])"
    by (simp add: client_defs scenario_defs)
  show ?thesis
    using submit_order_unregistered_strategy[OF h i, of "env_from 0"] h i
    by (auto simp: e O1_def)
qed

text \<open>
  Claim C3. \<^verbatim>\<open>submit_order\<close> of both adapters starts with \<^verbatim>\<open>_register_order\<close>. When the
  registration raises (an argument that is no order, or an id already in the index), the
  call raises the same exception and the state is the one before the call: the mock
  client has built no event and called no handler. When the registration returns, the
  live client returns its state, and everything the mock client does then, it does on the
  state the registration left: the three events are built and dispatched from that state,
  so each dispatch finds the order in the index under the strategy id of this call. No
  warning of an unknown order id is printed; the call either raises \<^verbatim>\<open>KeyError\<close> at the
  first dispatch (strategy id not registered, nothing delivered) or returns with the three
  events delivered to the handler of that strategy id; in both cases the order index is
  the one the registration left.
\<close>

theorem submit_order_registers_first:
  "(register_order arg strategy_id s = Raised e s' \<longrightarrow>
      s' = s \<and> submit_order env arg strategy_id s = Raised e s
      \<and> live_submit_order arg strategy_id s = Raised e s)
   \<and> (register_order arg strategy_id s = Returned s1 \<longrightarrow>
      live_submit_order arg strategy_id s = Returned s1
      \<and> order_index (state_of (submit_order env arg strategy_id s)) = order_index s1
      \<and> printed (state_of (submit_order env arg strategy_id s)) = printed s
      \<and> (\<exists>order. arg = AnOrder order
            \<and> s1 = s\<lparr>order_index := (order_index s)(id' order \<mapsto> strategy_id)\<rparr>
            \<and> submit_order env arg strategy_id s =
                (case stamps env s1 of (st1, t1) \<Rightarrow>
                 case stamps env t1 of (st2, t2) \<Rightarrow>
                 case stamps env t2 of (st3, t3) \<Rightarrow>
                   and_then (on_event (AnOrderEvent (new_event order Submitted st1)) t3) (\<lambda>s4.
                   and_then (on_event (AnOrderEvent (new_event order Accepted st2)) s4) (\<lambda>s5.
                   on_event (AnOrderEvent
                     (new_event order (Working (''B'' @ id' order)) st3)) s5)))
            \<and> (registered_strategies s strategy_id = None \<longrightarrow>
                 submit_order env arg strategy_id s =
                   Raised (KeyError strategy_id)
                     (s1\<lparr>clock_reads := clock_reads s + 6, uuid_draws := uuid_draws s + 3\<rparr>))
            \<and> (\<forall>sink. registered_strategies s strategy_id = Some sink \<longrightarrow>
                 submit_order env arg strategy_id s =
                   Returned
                     (s1\<lparr>inbox := (inbox s)(sink := inbox s sink @
                          [new_event order Submitted
                             (utcnow_src env (clock_reads s), uuid4_src env (uuid_draws s),
                              utcnow_src env (clock_reads s + 1)),
                           new_event order Accepted
                             (utcnow_src env (clock_reads s + 2), uuid4_src env (uuid_draws s + 1),
                              utcnow_src env (clock_reads s + 3)),
                           new_event order (Working (''B'' @ id' order))
                             (utcnow_src env (clock_reads s + 4), uuid4_src env (uuid_draws s + 2),
                              utcnow_src env (clock_reads s + 5))]),
                        clock_reads := clock_reads s + 6,
                        uuid_draws := uuid_draws s + 3\<rparr>))))"
proof -
  have fail: "s' = s \<and> submit_order env arg strategy_id s = Raised e s
      \<and> live_submit_order arg strategy_id s = Raised e s"
    if r: "register_order arg strategy_id s = Raised e s'"
  proof -
    have "s' = s"
      using r by (auto simp: register_order_def split: py_order.splits if_splits)
    with r show ?thesis
      by (simp add: submit_order_def live_submit_order_def)
  qed
  have succeed: "live_submit_order arg strategy_id s = Returned s1
      \<and> order_index (state_of (submit_order env arg strategy_id s)) = order_index s1
      \<and> printed (state_of (submit_order env arg strategy_id s)) = printed s
      \<and> (\<exists>order. arg = AnOrder order
            \<and> s1 = s\<lparr>order_index := (order_index s)(id' order \<mapsto> strategy_id)\<rparr>
            \<and> submit_order env arg strategy_id s =
                (case stamps env s1 of (st1, t1) \<Rightarrow>
                 case stamps env t1 of (st2, t2) \<Rightarrow>
                 case stamps env t2 of (st3, t3) \<Rightarrow>
                   and_then (on_event (AnOrderEvent (new_event order Submitted st1)) t3) (\<lambda>s4.
                   and_then (on_event (AnOrderEvent (new_event order Accepted st2)) s4) (\<lambda>s5.
                   on_event (AnOrderEvent
                     (new_event order (Working (''B'' @ id' order)) st3)) s5)))
            \<and> (registered_strategies s strategy_id = None \<longrightarrow>
                 submit_order env arg strategy_id s =
                   Raised (KeyError strategy_id)
                     (s1\<lparr>clock_reads := clock_reads s + 6, uuid_draws := uuid_draws s + 3\<rparr>))
            \<and> (\<forall>sink. registered_strategies s strategy_id = Some sink \<longrightarrow>
                 submit_order env arg strategy_id s =
                   Returned
                     (s1\<lparr>inbox := (inbox s)(sink := inbox s sink @
                          [new_event order Submitted
                             (utcnow_src env (clock_reads s), uuid4_src env (uuid_draws s),
                              utcnow_src env (clock_reads s + 1)),
                           new_event order Accepted
                             (utcnow_src env (clock_reads s + 2), uuid4_src env (uuid_draws s + 1),
                              utcnow_src env (clock_reads s + 3)),
                           new_event order (Working (''B'' @ id' order))
                             (utcnow_src env (clock_reads s + 4), uuid4_src env (uuid_draws s + 2),
                              utcnow_src env (clock_reads s + 5))]),
                        clock_reads := clock_reads s + 6,
                        uuid_draws := uuid_draws s + 3\<rparr>)))"
    if r: "register_order arg strategy_id s = Returned s1"
  proof -
    from r obtain order where arg: "arg = AnOrder order"
      and fresh: "id' order \<notin> dom (order_index s)"
      and s1: "s1 = s\<lparr>order_index := (order_index s)(id' order \<mapsto> strategy_id)\<rparr>"
      by (auto simp: register_order_def split: py_order.splits if_splits)
    have live: "live_submit_order arg strategy_id s = Returned s1"
      using r by (simp add: live_submit_order_def)
    have idx: "order_index (state_of (submit_order env arg strategy_id s)) = order_index s1"
      using r by (simp add: submit_order_index_after)
    have dispatch: "submit_order env arg strategy_id s =
                (case stamps env s1 of (st1, t1) \<Rightarrow>
                 case stamps env t1 of (st2, t2) \<Rightarrow>
                 case stamps env t2 of (st3, t3) \<Rightarrow>
                   and_then (on_event (AnOrderEvent (new_event order Submitted st1)) t3) (\<lambda>s4.
                   and_then (on_event (AnOrderEvent (new_event order Accepted st2)) s4) (\<lambda>s5.
                   on_event (AnOrderEvent
                     (new_event order (Working (''B'' @ id' order)) st3)) s5)))"
      using r by (simp add: submit_order_def arg Let_def split_beta)
    have none: "submit_order env arg strategy_id s =
                   Raised (KeyError strategy_id)
                     (s1\<lparr>clock_reads := clock_reads s + 6, uuid_draws := uuid_draws s + 3\<rparr>)"
      if "registered_strategies s strategy_id = None"
      using submit_order_no_sink[OF fresh that, of env] by (simp add: arg s1)
    have some: "submit_order env arg strategy_id s =
                   Returned
                     (s1\<lparr>inbox := (inbox s)(sink := inbox s sink @
                          [new_event order Submitted
                             (utcnow_src env (clock_reads s), uuid4_src env (uuid_draws s),
                              utcnow_src env (clock_reads s + 1)),
                           new_event order Accepted
                             (utcnow_src env (clock_reads s + 2), uuid4_src env (uuid_draws s + 1),
                              utcnow_src env (clock_reads s + 3)),
                           new_event order (Working (''B'' @ id' order))
                             (utcnow_src env (clock_reads s + 4), uuid4_src env (uuid_draws s + 2),
                              utcnow_src env (clock_reads s + 5))]),
                        clock_reads := clock_reads s + 6,
                        uuid_draws := uuid_draws s + 3\<rparr>)"
      if "registered_strategies s strategy_id = Some sink" for sink
      using submit_order_sink[OF fresh that, of env] by (simp add: arg s1)
    have pr: "printed (state_of (submit_order env arg strategy_id s)) = printed s"
    proof (cases "registered_strategies s strategy_id")
      case None
      then show ?thesis by (simp add: none s1)
    next
      case (Some sink)
      then show ?thesis by (simp add: some s1)
    qed
    show ?thesis
    proof (intro conjI exI[of _ order] impI allI)
      show "live_submit_order arg strategy_id s = Returned s1" by (rule live)
      show "order_index (state_of (submit_order env arg strategy_id s)) = order_index s1"
        by (rule idx)
      show "printed (state_of (submit_order env arg strategy_id s)) = printed s" by (rule pr)
      show "arg = AnOrder order" by (rule arg)
      show "s1 = s\<lparr>order_index := (order_index s)(id' order \<mapsto> strategy_id)\<rparr>"
        by (rule s1)
    qed (fact dispatch, erule none, erule some)
  qed
  show ?thesis
    by (rule conjI[OF impI impI]) (erule fail, erule succeed)
qed

theorem submit_order_registers_first_witness:
  "register_order (AnOrder O1) ''S-2'' submitted
     = Raised (ValueError ''The order does not have a unique id.'') submitted
   \<and> submit_order (env_from 6) (AnOrder O1) ''S-2'' submitted
     = Raised (ValueError ''The order does not have a unique id.'') submitted
   \<and> live_submit_order (AnOrder O1) ''S-2'' submitted
     = Raised (ValueError ''The order does not have a unique id.'') submitted
   \<and> register_order NotAnOrder ''S-1'' registered = Raised TypeError registered
   \<and> submit_order (env_from 0) NotAnOrder ''S-1'' registered = Raised TypeError registered
   \<and> register_order (AnOrder O1) ''S-1'' registered
     = Returned (registered\<lparr>order_index := [''O-1'' \<mapsto> ''S-1'']\<rparr>)
   \<and> live_submit_order (AnOrder O1) ''S-1'' registered
     = Returned (registered\<lparr>order_index := [''O-1'' \<mapsto> ''S-1'']\<rparr>)
   \<and> order_index (state_of (submit_order (env_from 0) (AnOrder O1) ''S-1'' registered))
     = [''O-1'' \<mapsto> ''S-1'']
   \<and> printed (state_of (submit_order (env_from 0) (AnOrder O1) ''S-1'' registered)) = []
   \<and> map kind (inbox (state_of (submit_order (env_from 0) (AnOrder O1) ''S-1'' registered)) 1)
     = [Submitted, Accepted, Working ''BO-1'']
   \<and> register_order (AnOrder O1) ''S-9'' registered
     = Returned (registered\<lparr>order_index := [''O-1'' \<mapsto> ''S-9'']\<rparr>)
   \<and> submit_order (env_from 0) (AnOrder O1) ''S-9'' registered
     = Raised (KeyError ''S-9'')
         (registered\<lparr>order_index := [''O-1'' \<mapsto> ''S-9''], clock_reads := 6, uuid_draws := 3\<rparr>)"
proof -
  have a: "register_order (AnOrder O1) ''S-2'' submitted
             = Raised (ValueError ''The order does not have a unique id.'') submitted"
    by (simp add: client_defs scenario_defs)
  have b: "register_order NotAnOrder ''S-1'' registered = Raised TypeError registered"
    by (simp add: register_order_def)
  have c: "register_order (AnOrder O1) ''S-1'' registered
             = Returned (registered\<lparr>order_index := [''O-1'' \<mapsto> ''S-1'']\<rparr>)"
    by (simp add: client_defs scenario_defs)
  have d: "register_order (AnOrder O1) ''S-9'' registered
             = Returned (registered\<lparr>order_index := [''O-1'' \<mapsto> ''S-9'']\<rparr>)"
    by (simp add: client_defs scenario_defs)
  have f: "submit_order (env_from 6) (AnOrder O1) ''S-2'' submitted
     = Raised (ValueError ''The order does not have a unique id.'') submitted
   \<and> live_submit_order (AnOrder O1) ''S-2'' submitted
     = Raised (ValueError ''The order does not have a unique id.'') submitted"
    using submit_order_registers_first[of "AnOrder O1" "''S-2''" submitted
            "ValueError ''The order does not have a unique id.''" submitted "env_from 6"] a
    by simp
  have g: "submit_order (env_from 0) NotAnOrder ''S-1'' registered = Raised TypeError registered"
    using submit_order_registers_first[of NotAnOrder "''S-1''" registered TypeError registered
            "env_from 0"] b
    by simp
  have h: "live_submit_order (AnOrder O1) ''S-1'' registered
     = Returned (registered\<lparr>order_index := [''O-1'' \<mapsto> ''S-1'']\<rparr>)
   \<and> order_index (state_of (submit_order (env_from 0) (AnOrder O1) ''S-1'' registered))
     = [''O-1'' \<mapsto> ''S-1'']
   \<and> printed (state_of (submit_order (env_from 0) (AnOrder O1) ''S-1'' registered)) = []
   \<and> map kind (inbox (state_of (submit_order (env_from 0) (AnOrder O1) ''S-1'' registered)) 1)
     = [Submitted, Accepted, Working ''BO-1'']"
    using submit_order_registers_first[of "AnOrder O1" "''S-1''" registered _ _ "env_from 0"
            "registered\<lparr>order_index := [''O-1'' \<mapsto> ''S-1'']\<rparr>"] c
    by (simp add: client_defs scenario_defs)
  have i: "submit_order (env_from 0) (AnOrder O1) ''S-9'' registered
     = Raised (KeyError ''S-9'')
         (registered\<lparr>order_index := [''O-1'' \<mapsto> ''S-9''], clock_reads := 6, uuid_draws := 3\<rparr>)"
    using submit_order_registers_first[of "AnOrder O1" "''S-9''" registered _ _ "env_from 0"
            "registered\<lparr>order_index := [''O-1'' \<mapsto> ''S-9'']\<rparr>"] d
    by (simp add: client_defs scenario_defs)
  show ?thesis
    using a b c d f g h i by simp
qed

text \<open>
  Claim C7. After a \<^verbatim>\<open>submit_order\<close> of the mock client that returned, and whatever calls
  were made on the client since, \<^verbatim>\<open>modify_order\<close> with the same order and a price \<open>P\<close>
  returns, and by then the handler of the owning strategy has been called with exactly
  one more event: a Modified event of this order whose new price is \<open>P\<close> and whose broker
  order id is \<open>B\<close> followed by the order's id, the one the Working event of the submission
  carried. Nothing else of the state changes but the counts of clock and uuid reads.
\<close>

theorem modify_order_delivers:
  assumes "submit_order env (AnOrder order) strategy_id s0 = Returned s1"
      and "s2 = run env Mock cs s1"
  shows "\<exists>sink. registered_strategies s0 strategy_id = Some sink
           \<and> kind (last (inbox s1 sink)) = Working (''B'' @ id' order)
           \<and> modify_order env (AnOrder order) P s2 =
               Returned
                 (s2\<lparr>inbox := (inbox s2)(sink := inbox s2 sink @
                      [\<lparr>ev_symbol = symbol order, order_id = id' order,
                        kind = Modified (''B'' @ id' order) P,
                        occurred_timestamp = utcnow_src env (clock_reads s2),
                        event_id = uuid4_src env (uuid_draws s2),
                        event_timestamp = utcnow_src env (clock_reads s2 + 1)\<rparr>]),
                    clock_reads := clock_reads s2 + 2, uuid_draws := uuid_draws s2 + 1\<rparr>)"
proof -
  have fresh: "id' order \<notin> dom (order_index s0)"
    using assms(1) submit_order_duplicate[of order s0 env strategy_id] by auto
  obtain sink where sink: "registered_strategies s0 strategy_id = Some sink"
    using assms(1) submit_order_no_sink[OF fresh, of strategy_id env]
    by (cases "registered_strategies s0 strategy_id") auto
  have s1: "s1 = s0\<lparr>order_index := (order_index s0)(id' order \<mapsto> strategy_id),
                inbox := (inbox s0)(sink := inbox s0 sink @
                  [new_event order Submitted
                     (utcnow_src env (clock_reads s0), uuid4_src env (uuid_draws s0),
                      utcnow_src env (clock_reads s0 + 1)),
                   new_event order Accepted
                     (utcnow_src env (clock_reads s0 + 2), uuid4_src env (uuid_draws s0 + 1),
                      utcnow_src env (clock_reads s0 + 3)),
                   new_event order (Working (''B'' @ id' order))
                     (utcnow_src env (clock_reads s0 + 4), uuid4_src env (uuid_draws s0 + 2),
                      utcnow_src env (clock_reads s0 + 5))]),
                clock_reads := clock_reads s0 + 6, uuid_draws := uuid_draws s0 + 3\<rparr>"
    using assms(1) submit_order_sink[OF fresh sink, of env] by simp
  have "order_index s1 (id' order) = Some strategy_id"
    and "registered_strategies s1 strategy_id = Some sink"
    by (simp_all add: s1 sink)
  then have "order_index s2 (id' order) = Some strategy_id"
    and "registered_strategies s2 strategy_id = Some sink"
    unfolding assms(2) by (simp_all add: run_keeps_order run_keeps_strategy)
  then have "modify_order env (AnOrder order) P s2 =
               Returned
                 (s2\<lparr>inbox := (inbox s2)(sink := inbox s2 sink @
                      [new_event order (Modified (''B'' @ id' order) P)
                         (utcnow_src env (clock_reads s2), uuid4_src env (uuid_draws s2),
                          utcnow_src env (clock_reads s2 + 1))]),
                    clock_reads := clock_reads s2 + 2, uuid_draws := uuid_draws s2 + 1\<rparr>)"
    by (rule modify_order_sink)
  moreover have "kind (last (inbox s1 sink)) = Working (''B'' @ id' order)"
    by (simp add: s1 new_event_def)
  ultimately show ?thesis
    using sink by (simp add: new_event_def)
qed

theorem modify_order_delivers_witness:
  "submit_order (env_from 0) (AnOrder O1) ''S-1'' registered = Returned submitted
   \<and> (\<exists>s'. modify_order (env_from 0) (AnOrder O1) (125, -2)
              (run (env_from 0) Mock [CancelOrder (AnOrder O1)] submitted) = Returned s'
            \<and> map kind (inbox s' 1) =
                [Submitted, Accepted, Working ''BO-1'', Cancelled, Modified ''BO-1'' (125, -2)]
            \<and> map event_id (inbox s' 1) = [0, 1, 2, 3, 4])"
proof -
  have h: "submit_order (env_from 0) (AnOrder O1) ''S-1'' registered = Returned submitted"
    by (simp add: client_defs scenario_defs)
  show ?thesis
    using modify_order_delivers[OF h refl, where cs = "[CancelOrder (AnOrder O1)]"
            and P = "(125, -2)"] h
    by (simp add: client_defs scenario_defs)
qed

section \<open>Two runs on the same calls\<close>

text \<open>
  The ids and timestamps of the events come from the environment; everything else is a
  function of the calls. The proof is a simulation: similar states stay similar under the
  same call, whatever the two environments return.
\<close>

lemma similar_refl: "similar s s"
  by (simp add: similar_def)

lemma and_then_similar:
  assumes "similar_outcome x y"
      and "\<And>s t. similar s t \<Longrightarrow> similar_outcome (f s) (g t)"
  shows "similar_outcome (and_then x f) (and_then y g)"
  using assms by (cases x; cases y) (auto simp: similar_outcome_def)

lemma stamps_similar:
  "similar s t \<Longrightarrow> similar (snd (stamps env1 s)) (snd (stamps env2 t))"
  by (simp add: stamps_eq similar_def)

lemma on_event_similar:
  assumes "similar s t" and "content e = content e'"
  shows "similar_outcome (on_event (AnOrderEvent e) s) (on_event (AnOrderEvent e') t)"
  using assms
  by (auto simp: similar_outcome_def similar_def on_event_def call_sink_def log_def content_def
           split: option.splits)

lemma on_event_similar_any:
  assumes "similar s t"
  shows "similar_outcome (on_event ev s) (on_event ev t)"
proof (cases ev)
  case (AnOrderEvent e)
  then show ?thesis using assms by (simp add: on_event_similar)
qed (simp_all add: on_event_def similar_outcome_def assms)

lemma register_order_similar:
  "similar s t \<Longrightarrow> similar_outcome (register_order arg sid s) (register_order arg sid t)"
  by (auto simp: similar_outcome_def similar_def register_order_def split: py_order.splits)

lemma register_strategy_similar:
  "similar s t \<Longrightarrow> similar_outcome (register_strategy arg s) (register_strategy arg t)"
  by (auto simp: similar_outcome_def similar_def register_strategy_def register_execution_client_def
        Let_def split: py_strategy.splits)

lemma new_event_content: "content (new_event order k st) = (symbol order, id' order, k)"
  by (cases st) (simp add: new_event_def content_def)

lemma cancel_order_similar:
  assumes "similar s t"
  shows "similar_outcome (cancel_order env1 arg s) (cancel_order env2 arg t)"
proof (cases arg)
  case (AnOrder order)
  have "similar_outcome
          (on_event (AnOrderEvent (new_event order Cancelled (fst (stamps env1 s)))) (snd (stamps env1 s)))
          (on_event (AnOrderEvent (new_event order Cancelled (fst (stamps env2 t)))) (snd (stamps env2 t)))"
    by (rule on_event_similar) (simp_all add: stamps_similar assms new_event_content)
  then show ?thesis
    using AnOrder by (simp add: cancel_order_def split_beta Let_def)
next
  case NotAnOrder
  then show ?thesis using assms by (simp add: cancel_order_def similar_outcome_def)
qed

lemma modify_order_similar:
  assumes "similar s t"
  shows "similar_outcome (modify_order env1 arg p s) (modify_order env2 arg p t)"
proof (cases arg)
  case (AnOrder order)
  have "similar_outcome
          (on_event (AnOrderEvent (new_event order (Modified (''B'' @ id' order) p) (fst (stamps env1 s)))) (snd (stamps env1 s)))
          (on_event (AnOrderEvent (new_event order (Modified (''B'' @ id' order) p) (fst (stamps env2 t)))) (snd (stamps env2 t)))"
    by (rule on_event_similar) (simp_all add: stamps_similar assms new_event_content)
  then show ?thesis
    using AnOrder by (simp add: modify_order_def split_beta Let_def)
next
  case NotAnOrder
  then show ?thesis using assms by (simp add: modify_order_def similar_outcome_def)
qed

lemma submit_order_similar:
  assumes "similar s t"
  shows "similar_outcome (submit_order env1 arg sid s) (submit_order env2 arg sid t)"
  unfolding submit_order_def
proof (rule and_then_similar)
  show "similar_outcome (register_order arg sid s) (register_order arg sid t)"
    using assms by (rule register_order_similar)
next
  fix s0 t0 assume st: "similar s0 t0"
  show "similar_outcome
          (case arg of
             AnOrder order \<Rightarrow>
               (let (st1, s1) = stamps env1 s0;
                    order_submitted = new_event order Submitted st1;
                    (st2, s2) = stamps env1 s1;
                    order_accepted = new_event order Accepted st2;
                    (st3, s3) = stamps env1 s2;
                    order_working = new_event order (Working (''B'' @ id' order)) st3
                in and_then (on_event (AnOrderEvent order_submitted) s3) (\<lambda>s4.
                   and_then (on_event (AnOrderEvent order_accepted) s4) (\<lambda>s5.
                   on_event (AnOrderEvent order_working) s5)))
           | NotAnOrder \<Rightarrow> Raised AttributeError s0)
          (case arg of
             AnOrder order \<Rightarrow>
               (let (st1, s1) = stamps env2 t0;
                    order_submitted = new_event order Submitted st1;
                    (st2, s2) = stamps env2 s1;
                    order_accepted = new_event order Accepted st2;
                    (st3, s3) = stamps env2 s2;
                    order_working = new_event order (Working (''B'' @ id' order)) st3
                in and_then (on_event (AnOrderEvent order_submitted) s3) (\<lambda>s4.
                   and_then (on_event (AnOrderEvent order_accepted) s4) (\<lambda>s5.
                   on_event (AnOrderEvent order_working) s5)))
           | NotAnOrder \<Rightarrow> Raised AttributeError t0)"
  proof (cases arg)
    case (AnOrder order)
    have 3: "similar (snd (stamps env1 (snd (stamps env1 (snd (stamps env1 s0))))))
                     (snd (stamps env2 (snd (stamps env2 (snd (stamps env2 t0))))))"
      by (intro stamps_similar st)
    show ?thesis
      unfolding AnOrder py_order.case Let_def split_beta
      by (intro and_then_similar on_event_similar 3) (simp_all add: new_event_content)
  next
    case NotAnOrder
    then show ?thesis using st by (simp add: similar_outcome_def)
  qed
qed

lemma perform_similar:
  assumes "similar s t"
  shows "similar_outcome (perform env1 a c s) (perform env2 a c t)"
proof (cases c)
  case (RegisterStrategy x1)
  then show ?thesis using assms by (simp add: register_strategy_similar)
next
  case Connect
  then show ?thesis using assms
    by (cases a) (simp_all add: connect_def live_connect_def log_def similar_outcome_def similar_def)
next
  case Disconnect
  then show ?thesis using assms
    by (cases a) (simp_all add: disconnect_def live_disconnect_def log_def similar_outcome_def similar_def)
next
  case (SubmitOrder x41 x42)
  then show ?thesis using assms
    by (cases a) (simp_all add: submit_order_similar live_submit_order_def register_order_similar)
next
  case (CancelOrder x5)
  then show ?thesis using assms cancel_order_similar[of s t env1 x5 env2]
    by (cases a) (simp_all add: live_cancel_order_def similar_outcome_def)
next
  case (ModifyOrder x61 x62)
  then show ?thesis using assms modify_order_similar[of s t env1 x61 x62 env2]
    by (cases a) (simp_all add: live_modify_order_def similar_outcome_def)
next
  case (OnEvent x7)
  then show ?thesis using assms by (simp add: on_event_similar_any)
qed

lemma run_similar:
  "similar s t \<Longrightarrow> similar (run env1 a cs s) (run env2 a cs t)"
proof (induction cs arbitrary: s t)
  case Nil
  then show ?case by simp
next
  case (Cons c cs)
  from Cons.prems have "similar (state_of (perform env1 a c s)) (state_of (perform env2 a c t))"
    using perform_similar[of s t env1 a c env2] by (simp add: similar_outcome_def)
  then show ?case by (simp add: Cons.IH)
qed

text \<open>
  Claim C2, as amended. Two runs of a client from the same state on the same sequence of
  calls give every handler the same number of events in the same order, and the events
  agree pairwise on symbol, order id and variant with its fields (broker order id, new
  price); both dictionaries and the printed lines are the same too. Only the event ids and
  the two timestamps of each event, read from \<^verbatim>\<open>uuid.uuid4()\<close> and
  \<^verbatim>\<open>datetime.datetime.utcnow()\<close> when the event is built, are not fixed by the calls.
\<close>

theorem runs_agree_up_to_stamps:
  "map content (inbox (run env1 a cs s) r) = map content (inbox (run env2 a cs s) r)
   \<and> registered_strategies (run env1 a cs s) = registered_strategies (run env2 a cs s)
   \<and> order_index (run env1 a cs s) = order_index (run env2 a cs s)
   \<and> printed (run env1 a cs s) = printed (run env2 a cs s)"
  using run_similar[OF similar_refl, of env1 a cs s env2]
  by (simp add: similar_def)

theorem runs_agree_up_to_stamps_witness:
  "map content (inbox (run (env_from 0) Mock
      [RegisterStrategy (AStrategy S1), SubmitOrder (AnOrder O1) ''S-1''] init) 1)
     = [(''X'', ''O-1'', Submitted), (''X'', ''O-1'', Accepted), (''X'', ''O-1'', Working ''BO-1'')]
   \<and> map content (inbox (run (env_from 100) Mock
      [RegisterStrategy (AStrategy S1), SubmitOrder (AnOrder O1) ''S-1''] init) 1)
     = [(''X'', ''O-1'', Submitted), (''X'', ''O-1'', Accepted), (''X'', ''O-1'', Working ''BO-1'')]"
proof -
  have "map content (inbox (run (env_from 0) Mock
      [RegisterStrategy (AStrategy S1), SubmitOrder (AnOrder O1) ''S-1''] init) 1)
     = [(''X'', ''O-1'', Submitted), (''X'', ''O-1'', Accepted), (''X'', ''O-1'', Working ''BO-1'')]"
    by (simp add: client_defs scenario_defs content_def)
  then show ?thesis
    using runs_agree_up_to_stamps[of "env_from 0" Mock
            "[RegisterStrategy (AStrategy S1), SubmitOrder (AnOrder O1) ''S-1'']" init 1
            "env_from 100"]
    by simp
qed

text \<open>
  The claim as the specification words it, identical events in every field, fails: in the
  scenario, a run in which the uuid generator and the clock start at 0 and a run in which
  they start at 100 hand different events to the handler of \<open>S-1\<close>.
\<close>

theorem runs_differ_in_stamps:
  "inbox (run (env_from 0) Mock
      [RegisterStrategy (AStrategy S1), SubmitOrder (AnOrder O1) ''S-1''] init) 1
   \<noteq> inbox (run (env_from 100) Mock
      [RegisterStrategy (AStrategy S1), SubmitOrder (AnOrder O1) ''S-1''] init) 1"
  by (simp add: client_defs scenario_defs)

end
